theory Spec2Isabelle
  imports Main
begin

section \<open>Data model (src/app/page.tsx, lines 6-13 and 33-40)\<close>

text \<open>
  The record type of the listing. The fields \<^verbatim>\<open>id\<close>, \<^verbatim>\<open>size\<close> and \<^verbatim>\<open>description\<close> carry the
  prefix \<open>rec_\<close>: \<open>id\<close> and \<open>size\<close> are constants of HOL, and \<open>description\<close> is also a
  state variable of the page.
\<close>

record FileRecord =
  rec_id :: string
  fileName :: string
  rec_size :: int
  uploadedAt :: string
  contentType :: "string option"
  rec_description :: "string option"

definition sample_record :: FileRecord where
  "sample_record =
     \<lparr>rec_id = ''f1'', fileName = ''a.txt'', rec_size = 3, uploadedAt = ''2024-01-01T00:00:00Z'',
      contentType = Some ''text/plain'', rec_description = None\<rparr>"

text \<open>The \<^verbatim>\<open>File\<close> object of the file input.\<close>

record File =
  file_name :: string
  file_size :: nat
  file_type :: string

definition sample_file :: File where
  "sample_file = \<lparr>file_name = ''a.txt'', file_size = 3, file_type = ''text/plain''\<rparr>"

text \<open>
  A thrown value is an instance of \<^verbatim>\<open>Error\<close> with its message, or anything else. A call or
  an awaited promise returns a value or throws.
\<close>

datatype thrown = Error string | NonError

datatype 'a completion = Returns 'a | Throws thrown

text \<open>\<^verbatim>\<open>error instanceof Error ? error.message : fallback\<close>\<close>

fun message_or :: "thrown \<Rightarrow> string \<Rightarrow> string" where
  "message_or (Error m) fallback = m"
| "message_or NonError fallback = fallback"

text \<open>
  The decoded body of the listing response, of type \<^verbatim>\<open>any\<close> in the source. The state it is
  stored in is declared \<^verbatim>\<open>FileRecord[]\<close>, so the bodies of this model are the ones that
  keep that type: a bare array of records, an object whose \<^verbatim>\<open>files\<close> property is such an
  array, and \<^verbatim>\<open>null\<close>, on which reading \<^verbatim>\<open>.files\<close> throws a \<^verbatim>\<open>TypeError\<close> with a message
  chosen by the engine (the argument of \<open>JsonNull\<close>).
\<close>

datatype payload =
    JsonNull string
  | JsonArray "FileRecord list"
  | JsonObject "FileRecord list"

record response =
  ok :: bool
  json :: "payload completion"
  blob :: "string completion"

definition sample_response :: response where
  "sample_response = \<lparr>ok = True, json = Returns (JsonArray []), blob = Returns ''data''\<rparr>"

datatype form_value = FileValue File | TextValue string

record request =
  url :: string
  http_method :: string
  cache :: "string option"
  body :: "(string \<times> form_value) list option"

record anchor =
  href :: string
  download :: string

text \<open>
  The calls the page makes on its environment, in the order they are made. A call is
  recorded whether it returns or throws.
\<close>

datatype effect =
    PreventDefault
  | Fetch request
  | ConsoleError thrown
  | CreateObjectURL string
  | CreateElement string
  | AppendChild anchor
  | Click anchor
  | RemoveChild anchor
  | RevokeObjectURL string

text \<open>What the browser answers to the calls of the save-as step of a download.\<close>

record dom =
  createObjectURL :: "string completion"
  appendChild :: "unit completion"
  click :: "unit completion"
  removeChild :: "unit completion"
  revokeObjectURL :: "unit completion"

text \<open>
  The eight state variables of \<^verbatim>\<open>FileManagerPage\<close>, and the calls made so far
  (\<open>effects\<close>, which the source does not store: it is the trace of the run).
\<close>

record page =
  files :: "FileRecord list"
  isLoading :: bool
  isUploading :: bool
  errorMessage :: "string option"
  selectedFile :: "File option"
  description :: string
  activeDownloadId :: "string option"
  deletingId :: "string option"
  effects :: "effect list"

definition initial_page :: page where
  "initial_page =
     \<lparr>files = [], isLoading = True, isUploading = False, errorMessage = None,
      selectedFile = None, description = [], activeDownloadId = None, deletingId = None,
      effects = []\<rparr>"

definition setFiles :: "FileRecord list \<Rightarrow> page \<Rightarrow> page" where
  "setFiles v s = s\<lparr>files := v\<rparr>"

definition setIsLoading :: "bool \<Rightarrow> page \<Rightarrow> page" where
  "setIsLoading v s = s\<lparr>isLoading := v\<rparr>"

definition setIsUploading :: "bool \<Rightarrow> page \<Rightarrow> page" where
  "setIsUploading v s = s\<lparr>isUploading := v\<rparr>"

definition setErrorMessage :: "string option \<Rightarrow> page \<Rightarrow> page" where
  "setErrorMessage v s = s\<lparr>errorMessage := v\<rparr>"

definition setSelectedFile :: "File option \<Rightarrow> page \<Rightarrow> page" where
  "setSelectedFile v s = s\<lparr>selectedFile := v\<rparr>"

definition setDescription :: "string \<Rightarrow> page \<Rightarrow> page" where
  "setDescription v s = s\<lparr>description := v\<rparr>"

definition setActiveDownloadId :: "string option \<Rightarrow> page \<Rightarrow> page" where
  "setActiveDownloadId v s = s\<lparr>activeDownloadId := v\<rparr>"

definition setDeletingId :: "string option \<Rightarrow> page \<Rightarrow> page" where
  "setDeletingId v s = s\<lparr>deletingId := v\<rparr>"

definition emit :: "effect \<Rightarrow> page \<Rightarrow> page" where
  "emit ev s = s\<lparr>effects := effects s @ [ev]\<rparr>"

text \<open>
  A \<^verbatim>\<open>try\<close> block runs to its end or throws; either way the state changes and the calls
  made up to that point stay.
\<close>

datatype try_result = Completed page | Raised thrown page

text \<open>
  The \<^verbatim>\<open>catch\<close> block shared by the four operations (lines 59-63, 103-107, 131-135,
  154-158): log the thrown value, then show its message or the operation's fallback.
\<close>

definition catch_error :: "string \<Rightarrow> try_result \<Rightarrow> page" where
  "catch_error fallback r =
     (case r of
        Completed s \<Rightarrow> s
      | Raised e s \<Rightarrow> setErrorMessage (Some (message_or e fallback)) (emit (ConsoleError e) s))"

section \<open>The messages shown to the user\<close>

text \<open>
  The texts are Japanese; a string is its UTF-8 bytes, and each definition gives the
  place of the literal in src/app/page.tsx, its meaning and its code points.
\<close>

text \<open>Line 54: the listing could not be fetched (code points 30D5 30A1 30A4 30EB 4E00 89A7 306E 53D6 5F97 306B 5931 6557 3057 307E 3057 305F 3002).\<close>

definition msg_list_failed :: string where
  "msg_list_failed =
    [CHR 0xE3, CHR 0x83, CHR 0x95, CHR 0xE3, CHR 0x82, CHR 0xA1, CHR 0xE3, CHR 0x82, CHR 0xA4,
     CHR 0xE3, CHR 0x83, CHR 0xAB, CHR 0xE4, CHR 0xB8, CHR 0x80, CHR 0xE8, CHR 0xA6, CHR 0xA7,
     CHR 0xE3, CHR 0x81, CHR 0xAE, CHR 0xE5, CHR 0x8F, CHR 0x96, CHR 0xE5, CHR 0xBE, CHR 0x97,
     CHR 0xE3, CHR 0x81, CHR 0xAB, CHR 0xE5, CHR 0xA4, CHR 0xB1, CHR 0xE6, CHR 0x95, CHR 0x97,
     CHR 0xE3, CHR 0x81, CHR 0x97, CHR 0xE3, CHR 0x81, CHR 0xBE, CHR 0xE3, CHR 0x81, CHR 0x97,
     CHR 0xE3, CHR 0x81, CHR 0x9F, CHR 0xE3, CHR 0x80, CHR 0x82]"

text \<open>Line 62: an unexpected error occurred (code points 4E88 671F 305B 306C 30A8 30E9 30FC 304C 767A 751F 3057 307E 3057 305F 3002).\<close>

definition msg_unexpected :: string where
  "msg_unexpected =
    [CHR 0xE4, CHR 0xBA, CHR 0x88, CHR 0xE6, CHR 0x9C, CHR 0x9F, CHR 0xE3, CHR 0x81, CHR 0x9B,
     CHR 0xE3, CHR 0x81, CHR 0xAC, CHR 0xE3, CHR 0x82, CHR 0xA8, CHR 0xE3, CHR 0x83, CHR 0xA9,
     CHR 0xE3, CHR 0x83, CHR 0xBC, CHR 0xE3, CHR 0x81, CHR 0x8C, CHR 0xE7, CHR 0x99, CHR 0xBA,
     CHR 0xE7, CHR 0x94, CHR 0x9F, CHR 0xE3, CHR 0x81, CHR 0x97, CHR 0xE3, CHR 0x81, CHR 0xBE,
     CHR 0xE3, CHR 0x81, CHR 0x97, CHR 0xE3, CHR 0x81, CHR 0x9F, CHR 0xE3, CHR 0x80, CHR 0x82]"

text \<open>Line 77: please choose a file to upload (code points 30A2 30C3 30D7 30ED 30FC 30C9 3059 308B 30D5 30A1 30A4 30EB 3092 9078 629E 3057 3066 304F 3060 3055 3044 3002).\<close>

definition msg_select_file :: string where
  "msg_select_file =
    [CHR 0xE3, CHR 0x82, CHR 0xA2, CHR 0xE3, CHR 0x83, CHR 0x83, CHR 0xE3, CHR 0x83, CHR 0x97,
     CHR 0xE3, CHR 0x83, CHR 0xAD, CHR 0xE3, CHR 0x83, CHR 0xBC, CHR 0xE3, CHR 0x83, CHR 0x89,
     CHR 0xE3, CHR 0x81, CHR 0x99, CHR 0xE3, CHR 0x82, CHR 0x8B, CHR 0xE3, CHR 0x83, CHR 0x95,
     CHR 0xE3, CHR 0x82, CHR 0xA1, CHR 0xE3, CHR 0x82, CHR 0xA4, CHR 0xE3, CHR 0x83, CHR 0xAB,
     CHR 0xE3, CHR 0x82, CHR 0x92, CHR 0xE9, CHR 0x81, CHR 0xB8, CHR 0xE6, CHR 0x8A, CHR 0x9E,
     CHR 0xE3, CHR 0x81, CHR 0x97, CHR 0xE3, CHR 0x81, CHR 0xA6, CHR 0xE3, CHR 0x81, CHR 0x8F,
     CHR 0xE3, CHR 0x81, CHR 0xA0, CHR 0xE3, CHR 0x81, CHR 0x95, CHR 0xE3, CHR 0x81, CHR 0x84,
     CHR 0xE3, CHR 0x80, CHR 0x82]"

text \<open>Line 97: the upload failed (code points 30D5 30A1 30A4 30EB 306E 30A2 30C3 30D7 30ED 30FC 30C9 306B 5931 6557 3057 307E 3057 305F 3002).\<close>

definition msg_upload_failed :: string where
  "msg_upload_failed =
    [CHR 0xE3, CHR 0x83, CHR 0x95, CHR 0xE3, CHR 0x82, CHR 0xA1, CHR 0xE3, CHR 0x82, CHR 0xA4,
     CHR 0xE3, CHR 0x83, CHR 0xAB, CHR 0xE3, CHR 0x81, CHR 0xAE, CHR 0xE3, CHR 0x82, CHR 0xA2,
     CHR 0xE3, CHR 0x83, CHR 0x83, CHR 0xE3, CHR 0x83, CHR 0x97, CHR 0xE3, CHR 0x83, CHR 0xAD,
     CHR 0xE3, CHR 0x83, CHR 0xBC, CHR 0xE3, CHR 0x83, CHR 0x89, CHR 0xE3, CHR 0x81, CHR 0xAB,
     CHR 0xE5, CHR 0xA4, CHR 0xB1, CHR 0xE6, CHR 0x95, CHR 0x97, CHR 0xE3, CHR 0x81, CHR 0x97,
     CHR 0xE3, CHR 0x81, CHR 0xBE, CHR 0xE3, CHR 0x81, CHR 0x97, CHR 0xE3, CHR 0x81, CHR 0x9F,
     CHR 0xE3, CHR 0x80, CHR 0x82]"

text \<open>Line 106: an error occurred while uploading (code points 30A2 30C3 30D7 30ED 30FC 30C9 4E2D 306B 30A8 30E9 30FC 304C 767A 751F 3057 307E 3057 305F 3002).\<close>

definition msg_upload_error :: string where
  "msg_upload_error =
    [CHR 0xE3, CHR 0x82, CHR 0xA2, CHR 0xE3, CHR 0x83, CHR 0x83, CHR 0xE3, CHR 0x83, CHR 0x97,
     CHR 0xE3, CHR 0x83, CHR 0xAD, CHR 0xE3, CHR 0x83, CHR 0xBC, CHR 0xE3, CHR 0x83, CHR 0x89,
     CHR 0xE4, CHR 0xB8, CHR 0xAD, CHR 0xE3, CHR 0x81, CHR 0xAB, CHR 0xE3, CHR 0x82, CHR 0xA8,
     CHR 0xE3, CHR 0x83, CHR 0xA9, CHR 0xE3, CHR 0x83, CHR 0xBC, CHR 0xE3, CHR 0x81, CHR 0x8C,
     CHR 0xE7, CHR 0x99, CHR 0xBA, CHR 0xE7, CHR 0x94, CHR 0x9F, CHR 0xE3, CHR 0x81, CHR 0x97,
     CHR 0xE3, CHR 0x81, CHR 0xBE, CHR 0xE3, CHR 0x81, CHR 0x97, CHR 0xE3, CHR 0x81, CHR 0x9F,
     CHR 0xE3, CHR 0x80, CHR 0x82]"

text \<open>Line 119, after the file name: its download failed (code points 306E 30C0 30A6 30F3 30ED 30FC 30C9 306B 5931 6557 3057 307E 3057 305F 3002).\<close>

definition msg_download_failed_suffix :: string where
  "msg_download_failed_suffix =
    [CHR 0xE3, CHR 0x81, CHR 0xAE, CHR 0xE3, CHR 0x83, CHR 0x80, CHR 0xE3, CHR 0x82, CHR 0xA6,
     CHR 0xE3, CHR 0x83, CHR 0xB3, CHR 0xE3, CHR 0x83, CHR 0xAD, CHR 0xE3, CHR 0x83, CHR 0xBC,
     CHR 0xE3, CHR 0x83, CHR 0x89, CHR 0xE3, CHR 0x81, CHR 0xAB, CHR 0xE5, CHR 0xA4, CHR 0xB1,
     CHR 0xE6, CHR 0x95, CHR 0x97, CHR 0xE3, CHR 0x81, CHR 0x97, CHR 0xE3, CHR 0x81, CHR 0xBE,
     CHR 0xE3, CHR 0x81, CHR 0x97, CHR 0xE3, CHR 0x81, CHR 0x9F, CHR 0xE3, CHR 0x80, CHR 0x82]"

text \<open>Line 134: an error occurred while downloading (code points 30C0 30A6 30F3 30ED 30FC 30C9 4E2D 306B 30A8 30E9 30FC 304C 767A 751F 3057 307E 3057 305F 3002).\<close>

definition msg_download_error :: string where
  "msg_download_error =
    [CHR 0xE3, CHR 0x83, CHR 0x80, CHR 0xE3, CHR 0x82, CHR 0xA6, CHR 0xE3, CHR 0x83, CHR 0xB3,
     CHR 0xE3, CHR 0x83, CHR 0xAD, CHR 0xE3, CHR 0x83, CHR 0xBC, CHR 0xE3, CHR 0x83, CHR 0x89,
     CHR 0xE4, CHR 0xB8, CHR 0xAD, CHR 0xE3, CHR 0x81, CHR 0xAB, CHR 0xE3, CHR 0x82, CHR 0xA8,
     CHR 0xE3, CHR 0x83, CHR 0xA9, CHR 0xE3, CHR 0x83, CHR 0xBC, CHR 0xE3, CHR 0x81, CHR 0x8C,
     CHR 0xE7, CHR 0x99, CHR 0xBA, CHR 0xE7, CHR 0x94, CHR 0x9F, CHR 0xE3, CHR 0x81, CHR 0x97,
     CHR 0xE3, CHR 0x81, CHR 0xBE, CHR 0xE3, CHR 0x81, CHR 0x97, CHR 0xE3, CHR 0x81, CHR 0x9F,
     CHR 0xE3, CHR 0x80, CHR 0x82]"

text \<open>Line 150: the deletion failed (code points 30D5 30A1 30A4 30EB 306E 524A 9664 306B 5931 6557 3057 307E 3057 305F 3002).\<close>

definition msg_delete_failed :: string where
  "msg_delete_failed =
    [CHR 0xE3, CHR 0x83, CHR 0x95, CHR 0xE3, CHR 0x82, CHR 0xA1, CHR 0xE3, CHR 0x82, CHR 0xA4,
     CHR 0xE3, CHR 0x83, CHR 0xAB, CHR 0xE3, CHR 0x81, CHR 0xAE, CHR 0xE5, CHR 0x89, CHR 0x8A,
     CHR 0xE9, CHR 0x99, CHR 0xA4, CHR 0xE3, CHR 0x81, CHR 0xAB, CHR 0xE5, CHR 0xA4, CHR 0xB1,
     CHR 0xE6, CHR 0x95, CHR 0x97, CHR 0xE3, CHR 0x81, CHR 0x97, CHR 0xE3, CHR 0x81, CHR 0xBE,
     CHR 0xE3, CHR 0x81, CHR 0x97, CHR 0xE3, CHR 0x81, CHR 0x9F, CHR 0xE3, CHR 0x80, CHR 0x82]"

text \<open>Line 157: an error occurred while deleting (code points 524A 9664 4E2D 306B 30A8 30E9 30FC 304C 767A 751F 3057 307E 3057 305F 3002).\<close>

definition msg_delete_error :: string where
  "msg_delete_error =
    [CHR 0xE5, CHR 0x89, CHR 0x8A, CHR 0xE9, CHR 0x99, CHR 0xA4, CHR 0xE4, CHR 0xB8, CHR 0xAD,
     CHR 0xE3, CHR 0x81, CHR 0xAB, CHR 0xE3, CHR 0x82, CHR 0xA8, CHR 0xE3, CHR 0x83, CHR 0xA9,
     CHR 0xE3, CHR 0x83, CHR 0xBC, CHR 0xE3, CHR 0x81, CHR 0x8C, CHR 0xE7, CHR 0x99, CHR 0xBA,
     CHR 0xE7, CHR 0x94, CHR 0x9F, CHR 0xE3, CHR 0x81, CHR 0x97, CHR 0xE3, CHR 0x81, CHR 0xBE,
     CHR 0xE3, CHR 0x81, CHR 0x97, CHR 0xE3, CHR 0x81, CHR 0x9F, CHR 0xE3, CHR 0x80, CHR 0x82]"

section \<open>The four operations\<close>

text \<open>
  Each operation is an \<^verbatim>\<open>async\<close> function: it runs to its first \<^verbatim>\<open>await\<close> when it is
  called (\<open>_begin\<close>) and goes on when the awaited request settles (\<open>_settle\<close>), on
  whatever the state is by then. The operation run without anything in between is the
  composition of the two.
\<close>

subsection \<open>list: \<^verbatim>\<open>fetchFiles\<close> (lines 47-67)\<close>

definition list_request :: request where
  "list_request = \<lparr>url = ''/api/files'', http_method = ''GET'', cache = Some ''no-store'', body = None\<rparr>"

definition fetchFiles_begin :: "page \<Rightarrow> page" where
  "fetchFiles_begin s = emit (Fetch list_request) (setErrorMessage None (setIsLoading True s))"

text \<open>
  \<^verbatim>\<open>payload.files ?? payload ?? []\<close> (line 58). Reading \<^verbatim>\<open>.files\<close> from \<^verbatim>\<open>null\<close> throws; an
  array has no such property, so the array itself is taken; the last alternative is
  never reached, since a \<^verbatim>\<open>payload\<close> that is \<^verbatim>\<open>null\<close> has thrown before.
\<close>

fun payload_files :: "payload \<Rightarrow> FileRecord list completion" where
  "payload_files (JsonNull m) = Throws (Error m)"
| "payload_files (JsonObject fs) = Returns fs"
| "payload_files (JsonArray xs) = Returns xs"

definition fetchFiles_try :: "response completion \<Rightarrow> page \<Rightarrow> try_result" where
  "fetchFiles_try r s =
     (case r of
        Throws e \<Rightarrow> Raised e s
      | Returns response \<Rightarrow>
          if \<not> ok response then Raised (Error msg_list_failed) s
          else (case json response of
                  Throws e \<Rightarrow> Raised e s
                | Returns payload \<Rightarrow>
                    (case payload_files payload of
                       Throws e \<Rightarrow> Raised e s
                     | Returns fs \<Rightarrow> Completed (setFiles fs s))))"

definition fetchFiles_settle :: "response completion \<Rightarrow> page \<Rightarrow> page" where
  "fetchFiles_settle r s = setIsLoading False (catch_error msg_unexpected (fetchFiles_try r s))"

definition fetchFiles :: "response completion \<Rightarrow> page \<Rightarrow> page" where
  "fetchFiles r s = fetchFiles_settle r (fetchFiles_begin s)"

subsection \<open>upload: \<^verbatim>\<open>handleUpload\<close> (lines 73-111)\<close>

text \<open>Lines 85-89: the description is appended only when it is not the empty string.\<close>

definition upload_request :: "File \<Rightarrow> string \<Rightarrow> request" where
  "upload_request f d =
     \<lparr>url = ''/api/files/upload'', http_method = ''POST'', cache = None,
      body = Some ((''file'', FileValue f) #
                   (if d \<noteq> [] then [(''description'', TextValue d)] else []))\<rparr>"

definition handleUpload_begin :: "page \<Rightarrow> page" where
  "handleUpload_begin s =
     (case selectedFile s of
        None \<Rightarrow> setErrorMessage (Some msg_select_file) (emit PreventDefault s)
      | Some f \<Rightarrow>
          emit (Fetch (upload_request f (description s)))
            (setErrorMessage None (setIsUploading True (emit PreventDefault s))))"

text \<open>
  Lines 96-102, once the POST has settled: on a 2xx answer the selection is cleared and
  \<^verbatim>\<open>fetchFiles\<close> is called, which runs to its own \<^verbatim>\<open>await\<close>.
\<close>

definition handleUpload_try :: "response completion \<Rightarrow> page \<Rightarrow> try_result" where
  "handleUpload_try r s =
     (case r of
        Throws e \<Rightarrow> Raised e s
      | Returns response \<Rightarrow>
          if \<not> ok response then Raised (Error msg_upload_failed) s
          else Completed (fetchFiles_begin (setDescription [] (setSelectedFile None s))))"

text \<open>
  The rest of the handler. \<open>listed\<close> is the answer to the listing request of line 102,
  read only when that request was made; \<^verbatim>\<open>fetchFiles\<close> catches whatever it throws, so
  the \<^verbatim>\<open>await\<close> of line 102 never throws.
\<close>

definition handleUpload_settle :: "response completion \<Rightarrow> response completion \<Rightarrow> page \<Rightarrow> page" where
  "handleUpload_settle r listed s =
     setIsUploading False
       (catch_error msg_upload_error
          (case handleUpload_try r s of
             Completed s' \<Rightarrow> Completed (fetchFiles_settle listed s')
           | Raised e s' \<Rightarrow> Raised e s'))"

text \<open>
  The same in two steps, for a run in which other handlers come in between: what the
  handler does when the POST settles, and what it does when the listing of line 102
  settles.
\<close>

definition handleUpload_respond :: "response completion \<Rightarrow> page \<Rightarrow> page" where
  "handleUpload_respond r s =
     (case handleUpload_try r s of
        Completed s' \<Rightarrow> s'
      | Raised e s' \<Rightarrow> setIsUploading False (catch_error msg_upload_error (Raised e s')))"

definition handleUpload_finish :: "response completion \<Rightarrow> page \<Rightarrow> page" where
  "handleUpload_finish listed s =
     setIsUploading False (catch_error msg_upload_error (Completed (fetchFiles_settle listed s)))"

definition handleUpload :: "response completion \<Rightarrow> response completion \<Rightarrow> page \<Rightarrow> page" where
  "handleUpload r listed s =
     (case selectedFile s of
        None \<Rightarrow> handleUpload_begin s
      | Some f \<Rightarrow> handleUpload_settle r listed (handleUpload_begin s))"

subsection \<open>download: \<^verbatim>\<open>handleDownload\<close> (lines 113-139)\<close>

definition download_request :: "FileRecord \<Rightarrow> request" where
  "download_request file =
     \<lparr>url = ''/api/files/'' @ rec_id file @ ''/download'', http_method = ''GET'', cache = None,
      body = None\<rparr>"

definition handleDownload_begin :: "FileRecord \<Rightarrow> page \<Rightarrow> page" where
  "handleDownload_begin file s =
     emit (Fetch (download_request file))
       (setErrorMessage None (setActiveDownloadId (Some (rec_id file)) s))"

text \<open>One call inside the \<^verbatim>\<open>try\<close> block: it is made, and the block goes on unless it throws.\<close>

definition call :: "effect \<Rightarrow> unit completion \<Rightarrow> (page \<Rightarrow> try_result) \<Rightarrow> page \<Rightarrow> try_result" where
  "call ev r rest s =
     (case r of
        Throws e \<Rightarrow> Raised e (emit ev s)
      | Returns u \<Rightarrow> rest (emit ev s))"

text \<open>Lines 124-130, from the creation of the link to the release of the object URL.\<close>

definition save_as :: "FileRecord \<Rightarrow> dom \<Rightarrow> string \<Rightarrow> page \<Rightarrow> try_result" where
  "save_as file d u s =
     (let link = \<lparr>href = u, download = fileName file\<rparr>
      in call (AppendChild link) (appendChild d)
           (call (Click link) (click d)
              (call (RemoveChild link) (removeChild d)
                 (call (RevokeObjectURL u) (revokeObjectURL d) Completed)))
           (emit (CreateElement ''a'') s))"

definition handleDownload_try :: "FileRecord \<Rightarrow> response completion \<Rightarrow> dom \<Rightarrow> page \<Rightarrow> try_result" where
  "handleDownload_try file r d s =
     (case r of
        Throws e \<Rightarrow> Raised e s
      | Returns response \<Rightarrow>
          if \<not> ok response then Raised (Error (fileName file @ msg_download_failed_suffix)) s
          else (case blob response of
                  Throws e \<Rightarrow> Raised e s
                | Returns b \<Rightarrow>
                    (case createObjectURL d of
                       Throws e \<Rightarrow> Raised e (emit (CreateObjectURL b) s)
                     | Returns u \<Rightarrow> save_as file d u (emit (CreateObjectURL b) s))))"

definition handleDownload_settle :: "FileRecord \<Rightarrow> response completion \<Rightarrow> dom \<Rightarrow> page \<Rightarrow> page" where
  "handleDownload_settle file r d s =
     setActiveDownloadId None (catch_error msg_download_error (handleDownload_try file r d s))"

definition handleDownload :: "FileRecord \<Rightarrow> response completion \<Rightarrow> dom \<Rightarrow> page \<Rightarrow> page" where
  "handleDownload file r d s = handleDownload_settle file r d (handleDownload_begin file s)"

subsection \<open>delete: \<^verbatim>\<open>handleDelete\<close> (lines 141-162)\<close>

definition delete_request :: "string \<Rightarrow> request" where
  "delete_request fileId =
     \<lparr>url = ''/api/files/'' @ fileId, http_method = ''DELETE'', cache = None, body = None\<rparr>"

definition handleDelete_begin :: "string \<Rightarrow> page \<Rightarrow> page" where
  "handleDelete_begin fileId s =
     emit (Fetch (delete_request fileId)) (setErrorMessage None (setDeletingId (Some fileId) s))"

text \<open>
  Line 153 passes an updater to \<^verbatim>\<open>setFiles\<close>: the filter is applied to the list of the
  moment, not to the one the handler was called with.
\<close>

definition handleDelete_try :: "string \<Rightarrow> response completion \<Rightarrow> page \<Rightarrow> try_result" where
  "handleDelete_try fileId r s =
     (case r of
        Throws e \<Rightarrow> Raised e s
      | Returns response \<Rightarrow>
          if \<not> ok response then Raised (Error msg_delete_failed) s
          else Completed (setFiles (filter (\<lambda>file. rec_id file \<noteq> fileId) (files s)) s))"

definition handleDelete_settle :: "string \<Rightarrow> response completion \<Rightarrow> page \<Rightarrow> page" where
  "handleDelete_settle fileId r s =
     setDeletingId None (catch_error msg_delete_error (handleDelete_try fileId r s))"

definition handleDelete :: "string \<Rightarrow> response completion \<Rightarrow> page \<Rightarrow> page" where
  "handleDelete fileId r s = handleDelete_settle fileId r (handleDelete_begin fileId s)"

section \<open>Runs of the page\<close>

text \<open>
  The page runs on one event loop: between two awaits a handler runs alone, and the
  handlers of different operations interleave at their awaits. A run is a sequence of
  such steps, from the state of the first render. The two input handlers (lines 299-302
  and 323) are steps too.
\<close>

datatype action =
    ListBegin
  | ListSettle "response completion"
  | UploadBegin
  | UploadRespond "response completion"
  | UploadFinish "response completion"
  | DownloadBegin FileRecord
  | DownloadSettle FileRecord "response completion" dom
  | DeleteBegin string
  | DeleteSettle string "response completion"
  | SelectFile "File option"
  | TypeDescription string

fun act :: "action \<Rightarrow> page \<Rightarrow> page" where
  "act ListBegin s = fetchFiles_begin s"
| "act (ListSettle r) s = fetchFiles_settle r s"
| "act UploadBegin s = handleUpload_begin s"
| "act (UploadRespond r) s = handleUpload_respond r s"
| "act (UploadFinish listed) s = handleUpload_finish listed s"
| "act (DownloadBegin file) s = handleDownload_begin file s"
| "act (DownloadSettle file r d) s = handleDownload_settle file r d s"
| "act (DeleteBegin fileId) s = handleDelete_begin fileId s"
| "act (DeleteSettle fileId r) s = handleDelete_settle fileId r s"
| "act (SelectFile f) s = setSelectedFile f s"
| "act (TypeDescription d) s = setDescription d s"

definition run :: "action list \<Rightarrow> page \<Rightarrow> page" where
  "run as s = fold act as s"

text \<open>
  The message of a failed attempt: the one its \<^verbatim>\<open>catch\<close> block shows when the \<^verbatim>\<open>try\<close> block
  of the step throws, and the validation message of an upload without a file. A step
  that does not fail has none.
\<close>

definition thrown_message :: "string \<Rightarrow> try_result \<Rightarrow> string option" where
  "thrown_message fallback r =
     (case r of Completed s \<Rightarrow> None | Raised e s \<Rightarrow> Some (message_or e fallback))"

fun failure :: "action \<Rightarrow> page \<Rightarrow> string option" where
  "failure (ListSettle r) s = thrown_message msg_unexpected (fetchFiles_try r s)"
| "failure UploadBegin s = (case selectedFile s of None \<Rightarrow> Some msg_select_file | Some f \<Rightarrow> None)"
| "failure (UploadRespond r) s = thrown_message msg_upload_error (handleUpload_try r s)"
| "failure (UploadFinish listed) s = thrown_message msg_unexpected (fetchFiles_try listed s)"
| "failure (DownloadSettle file r d) s =
     thrown_message msg_download_error (handleDownload_try file r d s)"
| "failure (DeleteSettle fileId r) s = thrown_message msg_delete_error (handleDelete_try fileId r s)"
| "failure a s = None"

text \<open>
  A step that starts an operation: the four handlers when they are called, and the step
  of an upload that reaches line 102, where \<^verbatim>\<open>fetchFiles\<close> is called.
\<close>

fun starts :: "action \<Rightarrow> page \<Rightarrow> bool" where
  "starts ListBegin s = True"
| "starts UploadBegin s = True"
| "starts (DownloadBegin file) s = True"
| "starts (DeleteBegin fileId) s = True"
| "starts (UploadRespond r) s =
     (case handleUpload_try r s of Completed s' \<Rightarrow> True | Raised e s' \<Rightarrow> False)"
| "starts a s = False"

text \<open>
  A run that also keeps, beside the page, the message of the most recent attempt that
  failed since the most recent start of an operation: a failed step sets it, a start
  that does not fail empties it, any other step leaves it.
\<close>

definition track :: "action \<Rightarrow> page \<times> string option \<Rightarrow> page \<times> string option" where
  "track a sg =
     (act a (fst sg),
      case failure a (fst sg) of
        Some m \<Rightarrow> Some m
      | None \<Rightarrow> if starts a (fst sg) then None else snd sg)"

definition run_tracked :: "action list \<Rightarrow> page \<times> string option" where
  "run_tracked as = fold track as (initial_page, None)"

section \<open>Reading the trace\<close>

definition requests :: "page \<Rightarrow> request list" where
  "requests s = concat (map (\<lambda>ev. case ev of Fetch q \<Rightarrow> [q] | _ \<Rightarrow> []) (effects s))"

definition revocations :: "string \<Rightarrow> page \<Rightarrow> nat" where
  "revocations u s = count_list (effects s) (RevokeObjectURL u)"


section \<open>Properties of the operations\<close>

lemmas setters =
  setFiles_def setIsLoading_def setIsUploading_def setErrorMessage_def setSelectedFile_def
  setDescription_def setActiveDownloadId_def setDeletingId_def emit_def

subsection \<open>What a step does to the error message\<close>

lemma errorMessage_catch_error:
  "errorMessage (catch_error fallback r) =
     (case r of Completed s \<Rightarrow> errorMessage s | Raised e s \<Rightarrow> Some (message_or e fallback))"
  by (simp add: catch_error_def setters split: try_result.splits)

lemma fetchFiles_try_errorMessage:
  "fetchFiles_try r s = Completed s' \<Longrightarrow> errorMessage s' = errorMessage s"
  by (auto simp add: fetchFiles_try_def setters split: completion.splits if_splits)

lemma handleDelete_try_errorMessage:
  "handleDelete_try i r s = Completed s' \<Longrightarrow> errorMessage s' = errorMessage s"
  by (auto simp add: handleDelete_try_def setters split: completion.splits if_splits)

lemma save_as_errorMessage:
  "save_as file d u s = Completed s' \<Longrightarrow> errorMessage s' = errorMessage s"
  by (auto simp add: save_as_def Let_def call_def emit_def split: completion.splits)

lemma handleDownload_try_errorMessage:
  "handleDownload_try file r d s = Completed s' \<Longrightarrow> errorMessage s' = errorMessage s"
  by (auto simp add: handleDownload_try_def emit_def
      split: completion.splits if_splits dest!: save_as_errorMessage)

lemma handleUpload_try_errorMessage:
  "handleUpload_try r s = Completed s' \<Longrightarrow> errorMessage s' = None"
  by (auto simp add: handleUpload_try_def fetchFiles_begin_def setters
      split: completion.splits if_splits)

lemma errorMessage_settles:
  "errorMessage (fetchFiles_settle r s) =
     (case fetchFiles_try r s of Completed s' \<Rightarrow> errorMessage s
      | Raised e s' \<Rightarrow> Some (message_or e msg_unexpected))"
  "errorMessage (handleDownload_settle file r d s) =
     (case handleDownload_try file r d s of Completed s' \<Rightarrow> errorMessage s
      | Raised e s' \<Rightarrow> Some (message_or e msg_download_error))"
  "errorMessage (handleDelete_settle fileId r s) =
     (case handleDelete_try fileId r s of Completed s' \<Rightarrow> errorMessage s
      | Raised e s' \<Rightarrow> Some (message_or e msg_delete_error))"
  by (auto simp add: fetchFiles_settle_def handleDownload_settle_def handleDelete_settle_def
      errorMessage_catch_error setIsLoading_def setActiveDownloadId_def setDeletingId_def
      fetchFiles_try_errorMessage handleDownload_try_errorMessage handleDelete_try_errorMessage
      split: try_result.splits)

lemma errorMessage_upload_steps:
  "errorMessage (handleUpload_respond r s) =
     (case handleUpload_try r s of Completed s' \<Rightarrow> None
      | Raised e s' \<Rightarrow> Some (message_or e msg_upload_error))"
  "errorMessage (handleUpload_finish r s) =
     (case fetchFiles_try r s of Completed s' \<Rightarrow> errorMessage s
      | Raised e s' \<Rightarrow> Some (message_or e msg_unexpected))"
  by (auto simp add: handleUpload_respond_def handleUpload_finish_def errorMessage_catch_error
      errorMessage_settles setIsUploading_def handleUpload_try_errorMessage
      split: try_result.splits)

lemma errorMessage_begins:
  "errorMessage (fetchFiles_begin s) = None"
  "errorMessage (handleDownload_begin file s) = None"
  "errorMessage (handleDelete_begin fileId s) = None"
  "errorMessage (handleUpload_begin s) =
     (case selectedFile s of None \<Rightarrow> Some msg_select_file | Some f \<Rightarrow> None)"
  by (simp_all add: fetchFiles_begin_def handleDownload_begin_def handleDelete_begin_def
      handleUpload_begin_def setters split: option.splits)

lemma act_failure:
  "failure a s = Some m \<Longrightarrow> errorMessage (act a s) = Some m"
  by (cases a)
     (auto simp add: errorMessage_settles errorMessage_upload_steps errorMessage_begins
        thrown_message_def split: try_result.splits option.splits)

lemma act_start:
  "failure a s = None \<Longrightarrow> starts a s \<Longrightarrow> errorMessage (act a s) = None"
  by (cases a)
     (auto simp add: errorMessage_upload_steps errorMessage_begins
        thrown_message_def split: try_result.splits option.splits)

lemma act_other:
  "failure a s = None \<Longrightarrow> \<not> starts a s \<Longrightarrow> errorMessage (act a s) = errorMessage s"
  by (cases a)
     (auto simp add: errorMessage_settles errorMessage_upload_steps
        thrown_message_def setters split: try_result.splits option.splits)

text \<open>
  One step keeps the invariant of a tracked run: the message on the page is the tracked
  one.
\<close>

lemma track_keeps_message:
  assumes "errorMessage (fst sg) = snd sg"
  shows "errorMessage (fst (track a sg)) = snd (track a sg)"
proof (cases "failure a (fst sg)")
  case None
  show ?thesis
  proof (cases "starts a (fst sg)")
    case True
    with None show ?thesis
      by (simp add: track_def act_start)
  next
    case False
    with None assms show ?thesis
      by (simp add: track_def act_other)
  qed
next
  case (Some m)
  then show ?thesis
    by (simp add: track_def act_failure)
qed

lemma fold_track_keeps_message:
  "errorMessage (fst sg) = snd sg \<Longrightarrow>
   errorMessage (fst (fold track as sg)) = snd (fold track as sg)"
proof (induction as arbitrary: sg)
  case Nil
  then show ?case by simp
next
  case (Cons a as)
  from Cons.prems have "errorMessage (fst (track a sg)) = snd (track a sg)"
    by (rule track_keeps_message)
  then show ?case
    using Cons.IH [of "track a sg"] by simp
qed

lemma fst_fold_track: "fst (fold track as sg) = fold act as (fst sg)"
  by (induction as arbitrary: sg) (simp_all add: track_def)

text \<open>The upload handler run at once is its two steps, one after the other.\<close>

lemma handleUpload_settle_steps:
  "handleUpload_settle r listed s =
     (case handleUpload_try r s of
        Completed s' \<Rightarrow> handleUpload_finish listed (handleUpload_respond r s)
      | Raised e s' \<Rightarrow> handleUpload_respond r s)"
  by (simp add: handleUpload_settle_def handleUpload_respond_def handleUpload_finish_def
      split: try_result.splits)

subsection \<open>What the listing leaves alone\<close>

lemma isLoading_fetchFiles_settle: "isLoading (fetchFiles_settle r s) = False"
  by (simp add: fetchFiles_settle_def setIsLoading_def)

lemma fetchFiles_settle_keeps:
  "selectedFile (fetchFiles_settle r s) = selectedFile s"
  "description (fetchFiles_settle r s) = description s"
  "effects (fetchFiles_settle r s) =
     effects s @ (case fetchFiles_try r s of Completed s' \<Rightarrow> [] | Raised e s' \<Rightarrow> [ConsoleError e])"
  by (simp_all add: fetchFiles_settle_def fetchFiles_try_def catch_error_def setters
      split: completion.splits payload.splits)

text \<open>A listing whose \<^verbatim>\<open>try\<close> block throws, whatever the reason, keeps the files.\<close>

lemma fetchFiles_raised:
  "fetchFiles_try r s = Raised e s' \<Longrightarrow>
   files (fetchFiles_settle r s) = files s \<and>
   errorMessage (fetchFiles_settle r s) = Some (message_or e msg_unexpected)"
  by (auto simp add: fetchFiles_settle_def fetchFiles_try_def catch_error_def setters
      split: completion.splits if_splits)

subsection \<open>The object URL of a download\<close>

text \<open>When no call of the save-as step throws, the URL is released once.\<close>

lemma revoked_once_when_nothing_throws:
  "revocations u (handleDownload file (Returns (r\<lparr>ok := True, blob := Returns b\<rparr>))
      (d\<lparr>createObjectURL := Returns u, appendChild := Returns (), click := Returns (),
         removeChild := Returns (), revokeObjectURL := Returns ()\<rparr>) s) =
   revocations u s + 1"
  by (simp add: handleDownload_def handleDownload_settle_def handleDownload_begin_def
      handleDownload_try_def save_as_def Let_def call_def catch_error_def revocations_def setters)

text \<open>When appending, clicking or removing the link throws, the URL is not released.\<close>

lemma not_revoked_when_trigger_throws:
  "appendChild d = Throws e \<or>
   (appendChild d = Returns () \<and> click d = Throws e) \<or>
   (appendChild d = Returns () \<and> click d = Returns () \<and> removeChild d = Throws e) \<Longrightarrow>
   createObjectURL d = Returns u \<Longrightarrow>
   revocations u (handleDownload file (Returns (r\<lparr>ok := True, blob := Returns b\<rparr>)) d s) =
   revocations u s"
  by (auto simp add: handleDownload_def handleDownload_settle_def handleDownload_begin_def
      handleDownload_try_def save_as_def Let_def call_def catch_error_def revocations_def setters)

section \<open>The claims\<close>

text \<open>
  C1. Whatever the request of an operation does (a 2xx answer, another status, a thrown
  transport or parse error), the flag of the operation is idle once the operation has
  settled: \<open>isLoading\<close> is false after list, \<open>isUploading\<close> is false after upload,
  \<open>activeDownloadId\<close> is null after download, \<open>deletingId\<close> is null after delete. This
  holds for the step that settles the operation, on any state, and so for the operation
  run at once (an upload that made a request had a file selected).
\<close>

theorem C1_flags_return_to_idle:
  "isLoading (fetchFiles_settle r1 s1) = False \<and>
   isLoading (fetchFiles r1 s1) = False \<and>
   isUploading (handleUpload_settle r2 listed s2) = False \<and>
   isUploading (handleUpload r2 listed (s2\<lparr>selectedFile := Some f\<rparr>)) = False \<and>
   activeDownloadId (handleDownload_settle file r3 d s3) = None \<and>
   activeDownloadId (handleDownload file r3 d s3) = None \<and>
   deletingId (handleDelete_settle fileId r4 s4) = None \<and>
   deletingId (handleDelete fileId r4 s4) = None"
  by (simp add: fetchFiles_def handleUpload_def handleDownload_def handleDelete_def
      fetchFiles_settle_def handleUpload_settle_def handleDownload_settle_def
      handleDelete_settle_def setIsLoading_def setIsUploading_def setActiveDownloadId_def
      setDeletingId_def)

text \<open>
  C2. The claim is that the object URL of a download is released once on every exit
  path, also when the save-as step throws. The code releases it on line 130, inside the
  \<^verbatim>\<open>try\<close> block and after the three calls on the link, so a throw of one of them skips the
  release. Here \<^verbatim>\<open>removeChild\<close> throws (the link is no longer a child of the body): the
  calls made are the request, the creation of the URL and of the link, the three calls on
  the link and the log of the error; the URL \<open>blob:1\<close> is never released.
\<close>

theorem C2_object_url_not_released_when_removeChild_throws:
  "effects (handleDownload
      \<lparr>rec_id = ''f1'', fileName = ''a.txt'', rec_size = 1, uploadedAt = '''',
       contentType = None, rec_description = None\<rparr>
      (Returns \<lparr>ok = True, json = Throws NonError, blob = Returns ''data''\<rparr>)
      \<lparr>createObjectURL = Returns ''blob:1'', appendChild = Returns (),
       click = Returns (), removeChild = Throws (Error ''NotFoundError''),
       revokeObjectURL = Returns ()\<rparr>
      initial_page) =
   [Fetch \<lparr>url = ''/api/files/f1/download'', http_method = ''GET'', cache = None, body = None\<rparr>,
    CreateObjectURL ''data'', CreateElement ''a'',
    AppendChild \<lparr>href = ''blob:1'', download = ''a.txt''\<rparr>,
    Click \<lparr>href = ''blob:1'', download = ''a.txt''\<rparr>,
    RemoveChild \<lparr>href = ''blob:1'', download = ''a.txt''\<rparr>,
    ConsoleError (Error ''NotFoundError'')]"
  by (simp add: handleDownload_def handleDownload_settle_def handleDownload_begin_def
      handleDownload_try_def save_as_def Let_def call_def catch_error_def download_request_def
      initial_page_def setters)

text \<open>
  C3. After a list whose answer is 2xx and whose body holds the records \<open>recs\<close>, the
  files are exactly \<open>recs\<close>, whatever they were before: nothing is carried over. The body
  may be an object with the records in its \<^verbatim>\<open>files\<close> field or the bare array; both give
  the same page.
\<close>

theorem C3_list_replaces_files:
  "files (fetchFiles (Returns (r\<lparr>ok := True, json := Returns (JsonObject recs)\<rparr>)) s) = recs \<and>
   files (fetchFiles (Returns (r\<lparr>ok := True, json := Returns (JsonArray recs)\<rparr>)) s) = recs \<and>
   length (files (fetchFiles (Returns (r\<lparr>ok := True, json := Returns (JsonObject recs)\<rparr>)) s))
     = length recs \<and>
   fetchFiles (Returns (r\<lparr>ok := True, json := Returns (JsonObject recs)\<rparr>)) s =
     fetchFiles (Returns (r\<lparr>ok := True, json := Returns (JsonArray recs)\<rparr>)) s"
  by (simp add: fetchFiles_def fetchFiles_settle_def fetchFiles_try_def fetchFiles_begin_def
      catch_error_def setters)

text \<open>
  C4. A list that fails leaves the files as they were before the call and sets the error
  message: the fixed listing-failed text when the status is not 2xx; the message of the
  thrown error (or the fallback text, when the thrown value is not an \<^verbatim>\<open>Error\<close>) when the
  request or the decoding of the body throws; the engine's message when the body is
  \<^verbatim>\<open>null\<close>.
\<close>

theorem C4_failed_list_keeps_files:
  "files (fetchFiles (Throws e) s) = files s \<and>
   errorMessage (fetchFiles (Throws e) s) = Some (message_or e msg_unexpected) \<and>
   files (fetchFiles (Returns (r\<lparr>ok := False\<rparr>)) s) = files s \<and>
   errorMessage (fetchFiles (Returns (r\<lparr>ok := False\<rparr>)) s) = Some msg_list_failed \<and>
   files (fetchFiles (Returns (r\<lparr>ok := True, json := Throws e\<rparr>)) s) = files s \<and>
   errorMessage (fetchFiles (Returns (r\<lparr>ok := True, json := Throws e\<rparr>)) s)
     = Some (message_or e msg_unexpected) \<and>
   files (fetchFiles (Returns (r\<lparr>ok := True, json := Returns (JsonNull m)\<rparr>)) s) = files s \<and>
   errorMessage (fetchFiles (Returns (r\<lparr>ok := True, json := Returns (JsonNull m)\<rparr>)) s) = Some m"
  by (simp add: fetchFiles_def fetchFiles_settle_def fetchFiles_try_def fetchFiles_begin_def
      catch_error_def setters)

text \<open>
  C5. An upload with no file selected makes no request and sets the validation message
  at once; nothing else of the state changes (the only call made is
  \<^verbatim>\<open>event.preventDefault()\<close>).
\<close>

theorem C5_upload_without_file:
  assumes "selectedFile s = None"
  shows "handleUpload r listed s =
           s\<lparr>errorMessage := Some msg_select_file, effects := effects s @ [PreventDefault]\<rparr> \<and>
         requests (handleUpload r listed s) = requests s"
  using assms by (simp add: handleUpload_def handleUpload_begin_def requests_def setters)

theorem C5_upload_without_file_witness:
  "selectedFile initial_page = None \<and>
   handleUpload (Throws NonError) (Throws NonError) initial_page =
     initial_page\<lparr>errorMessage := Some msg_select_file, effects := [PreventDefault]\<rparr> \<and>
   requests (handleUpload (Throws NonError) (Throws NonError) initial_page) = []"
  using C5_upload_without_file [of initial_page "Throws NonError" "Throws NonError"]
  by (simp add: initial_page_def requests_def)

text \<open>
  C6. An upload with a file selected. On a 2xx answer the selected file is cleared, the
  description is emptied, the requests made are the upload and then one listing, and the
  page is resynchronized from the answer to that listing: the page at the end is the one
  \<^verbatim>\<open>fetchFiles\<close> leaves when it is run on the cleared page, so a listing answered with the
  records \<open>recs\<close> makes them the files (with no loading flag and no error left), and a
  listing that fails keeps the files and shows the listing error. On another status of
  the upload, or when its request throws, the error message is set, the selected file,
  the description and the files are kept, and no listing is requested.
\<close>

theorem C6_upload_outcomes:
  assumes "selectedFile s = Some f"
  shows
   "selectedFile (handleUpload (Returns (r\<lparr>ok := True\<rparr>)) listed s) = None \<and>
    description (handleUpload (Returns (r\<lparr>ok := True\<rparr>)) listed s) = [] \<and>
    requests (handleUpload (Returns (r\<lparr>ok := True\<rparr>)) listed s) =
      requests s @ [upload_request f (description s), list_request] \<and>
    handleUpload (Returns (r\<lparr>ok := True\<rparr>)) listed s =
      setIsUploading False
        (fetchFiles listed (setDescription [] (setSelectedFile None (handleUpload_begin s)))) \<and>
    files (handleUpload (Returns (r\<lparr>ok := True\<rparr>))
             (Returns (l\<lparr>ok := True, json := Returns (JsonArray recs)\<rparr>)) s) = recs \<and>
    files (handleUpload (Returns (r\<lparr>ok := True\<rparr>))
             (Returns (l\<lparr>ok := True, json := Returns (JsonObject recs)\<rparr>)) s) = recs \<and>
    isLoading (handleUpload (Returns (r\<lparr>ok := True\<rparr>))
             (Returns (l\<lparr>ok := True, json := Returns (JsonArray recs)\<rparr>)) s) = False \<and>
    errorMessage (handleUpload (Returns (r\<lparr>ok := True\<rparr>))
             (Returns (l\<lparr>ok := True, json := Returns (JsonArray recs)\<rparr>)) s) = None \<and>
    files (handleUpload (Returns (r\<lparr>ok := True\<rparr>)) (Returns (l\<lparr>ok := False\<rparr>)) s) = files s \<and>
    errorMessage (handleUpload (Returns (r\<lparr>ok := True\<rparr>)) (Returns (l\<lparr>ok := False\<rparr>)) s) =
      Some msg_list_failed \<and>
    isLoading (handleUpload (Returns (r\<lparr>ok := True\<rparr>)) listed s) = False \<and>
    errorMessage (handleUpload (Returns (r\<lparr>ok := False\<rparr>)) listed s) = Some msg_upload_failed \<and>
    selectedFile (handleUpload (Returns (r\<lparr>ok := False\<rparr>)) listed s) = selectedFile s \<and>
    description (handleUpload (Returns (r\<lparr>ok := False\<rparr>)) listed s) = description s \<and>
    files (handleUpload (Returns (r\<lparr>ok := False\<rparr>)) listed s) = files s \<and>
    requests (handleUpload (Returns (r\<lparr>ok := False\<rparr>)) listed s) =
      requests s @ [upload_request f (description s)] \<and>
    errorMessage (handleUpload (Throws e) listed s) = Some (message_or e msg_upload_error) \<and>
    selectedFile (handleUpload (Throws e) listed s) = selectedFile s \<and>
    description (handleUpload (Throws e) listed s) = description s \<and>
    files (handleUpload (Throws e) listed s) = files s \<and>
    requests (handleUpload (Throws e) listed s) = requests s @ [upload_request f (description s)]"
proof -
  let ?ok = "Returns (r\<lparr>ok := True\<rparr>)"
  have sent: "requests (handleUpload ?ok listed s) =
      requests s @ [upload_request f (description s), list_request]"
    using assms
    by (auto simp add: handleUpload_def handleUpload_settle_def handleUpload_try_def
        handleUpload_begin_def fetchFiles_begin_def catch_error_def fetchFiles_settle_keeps
        requests_def setters split: try_result.splits)
  have whole: "handleUpload ?ok a s =
      setIsUploading False
        (fetchFiles a (setDescription [] (setSelectedFile None (handleUpload_begin s))))" for a
    using assms
    by (simp add: handleUpload_def handleUpload_settle_def handleUpload_try_def
        handleUpload_begin_def fetchFiles_def catch_error_def setters)
  have cleared: "selectedFile (handleUpload ?ok listed s) = None \<and>
      description (handleUpload ?ok listed s) = [] \<and>
      isLoading (handleUpload ?ok listed s) = False"
    by (simp add: whole fetchFiles_def fetchFiles_settle_keeps fetchFiles_begin_def
        setIsUploading_def setDescription_def setSelectedFile_def setErrorMessage_def
        setIsLoading_def emit_def isLoading_fetchFiles_settle)
  have listed_ok: "files (handleUpload ?ok
        (Returns (l\<lparr>ok := True, json := Returns (JsonArray recs)\<rparr>)) s) = recs \<and>
      files (handleUpload ?ok
        (Returns (l\<lparr>ok := True, json := Returns (JsonObject recs)\<rparr>)) s) = recs \<and>
      isLoading (handleUpload ?ok
        (Returns (l\<lparr>ok := True, json := Returns (JsonArray recs)\<rparr>)) s) = False \<and>
      errorMessage (handleUpload ?ok
        (Returns (l\<lparr>ok := True, json := Returns (JsonArray recs)\<rparr>)) s) = None"
    by (simp add: whole fetchFiles_def fetchFiles_settle_def fetchFiles_try_def
        fetchFiles_begin_def catch_error_def setters)
  have listed_bad: "files (handleUpload ?ok (Returns (l\<lparr>ok := False\<rparr>)) s) = files s \<and>
      errorMessage (handleUpload ?ok (Returns (l\<lparr>ok := False\<rparr>)) s) = Some msg_list_failed"
    using assms
    by (simp add: whole fetchFiles_def fetchFiles_settle_def fetchFiles_try_def
        fetchFiles_begin_def handleUpload_begin_def catch_error_def setters)
  have failed: "errorMessage (handleUpload (Returns (r\<lparr>ok := False\<rparr>)) listed s) =
        Some msg_upload_failed \<and>
      selectedFile (handleUpload (Returns (r\<lparr>ok := False\<rparr>)) listed s) = selectedFile s \<and>
      description (handleUpload (Returns (r\<lparr>ok := False\<rparr>)) listed s) = description s \<and>
      files (handleUpload (Returns (r\<lparr>ok := False\<rparr>)) listed s) = files s \<and>
      requests (handleUpload (Returns (r\<lparr>ok := False\<rparr>)) listed s) =
        requests s @ [upload_request f (description s)]"
    using assms
    by (simp add: handleUpload_def handleUpload_settle_def handleUpload_try_def
        handleUpload_begin_def catch_error_def requests_def setters)
  have thrown: "errorMessage (handleUpload (Throws e) listed s) =
        Some (message_or e msg_upload_error) \<and>
      selectedFile (handleUpload (Throws e) listed s) = selectedFile s \<and>
      description (handleUpload (Throws e) listed s) = description s \<and>
      files (handleUpload (Throws e) listed s) = files s \<and>
      requests (handleUpload (Throws e) listed s) = requests s @ [upload_request f (description s)]"
    using assms
    by (simp add: handleUpload_def handleUpload_settle_def handleUpload_try_def
        handleUpload_begin_def catch_error_def requests_def setters)
  from sent whole cleared listed_ok listed_bad failed thrown show ?thesis
    by simp
qed

theorem C6_upload_outcomes_witness:
  "selectedFile (initial_page\<lparr>selectedFile := Some sample_file\<rparr>) = Some sample_file \<and>
   selectedFile (handleUpload (Returns (sample_response\<lparr>ok := True\<rparr>))
      (Returns (sample_response\<lparr>ok := True, json := Returns (JsonArray [sample_record])\<rparr>))
      (initial_page\<lparr>selectedFile := Some sample_file\<rparr>)) = None \<and>
   files (handleUpload (Returns (sample_response\<lparr>ok := True\<rparr>))
      (Returns (sample_response\<lparr>ok := True, json := Returns (JsonArray [sample_record])\<rparr>))
      (initial_page\<lparr>selectedFile := Some sample_file\<rparr>)) = [sample_record] \<and>
   requests (handleUpload (Returns (sample_response\<lparr>ok := True\<rparr>))
      (Returns (sample_response\<lparr>ok := True, json := Returns (JsonArray [sample_record])\<rparr>))
      (initial_page\<lparr>selectedFile := Some sample_file\<rparr>)) =
     requests (initial_page\<lparr>selectedFile := Some sample_file\<rparr>) @
     [upload_request sample_file (description (initial_page\<lparr>selectedFile := Some sample_file\<rparr>)),
      list_request] \<and>
   errorMessage (handleUpload (Returns (sample_response\<lparr>ok := False\<rparr>))
      (Returns (sample_response\<lparr>ok := True, json := Returns (JsonArray [sample_record])\<rparr>))
      (initial_page\<lparr>selectedFile := Some sample_file\<rparr>)) = Some msg_upload_failed"
proof -
  have chosen: "selectedFile (initial_page\<lparr>selectedFile := Some sample_file\<rparr>) = Some sample_file"
    by simp
  from C6_upload_outcomes [OF chosen, where r = sample_response
      and listed = "Returns (sample_response\<lparr>ok := True, json := Returns (JsonArray [sample_record])\<rparr>)"
      and l = sample_response and recs = "[sample_record]" and e = NonError]
  show ?thesis
    using chosen by blast
qed

text \<open>
  C7. A delete answered 2xx keeps exactly the records whose id differs from the given
  one, in their order; with the files \<open>f1\<close>, \<open>f2\<close> and the id \<open>f1\<close> the result is \<open>f2\<close>
  alone. On another status, or when the request throws, the files are kept and the error
  message is set.
\<close>

theorem C7_delete_filters_by_id:
  "files (handleDelete fileId (Returns (r\<lparr>ok := True\<rparr>)) s) =
     filter (\<lambda>file. rec_id file \<noteq> fileId) (files s) \<and>
   files (handleDelete ''f1'' (Returns (r\<lparr>ok := True\<rparr>))
            (s\<lparr>files := [a\<lparr>rec_id := ''f1''\<rparr>, b\<lparr>rec_id := ''f2''\<rparr>]\<rparr>)) = [b\<lparr>rec_id := ''f2''\<rparr>] \<and>
   files (handleDelete fileId (Returns (r\<lparr>ok := False\<rparr>)) s) = files s \<and>
   errorMessage (handleDelete fileId (Returns (r\<lparr>ok := False\<rparr>)) s) = Some msg_delete_failed \<and>
   files (handleDelete fileId (Throws e) s) = files s \<and>
   errorMessage (handleDelete fileId (Throws e) s) = Some (message_or e msg_delete_error)"
  by (simp add: handleDelete_def handleDelete_settle_def handleDelete_try_def
      handleDelete_begin_def catch_error_def setters)

text \<open>
  C9, as stated: the error message is cleared at the start of every attempt of list,
  upload, download and delete. An upload with no file selected does not clear it: called
  on a page that shows an older message, it leaves a message on the page (the validation
  message, set on line 77 before the handler returns).
\<close>

theorem C9_upload_without_file_leaves_a_message:
  "errorMessage (handleUpload_begin (initial_page\<lparr>errorMessage := Some ''stale''\<rparr>)) \<noteq> None"
  by (simp add: handleUpload_begin_def initial_page_def setters)

text \<open>
  C9, amended. The start of list, of download, of delete and of an upload with a file
  selected clears the error message; an upload with no file selected replaces it by the
  validation message. So whatever the page has done before, right after such a start it
  shows no message (or the validation message of that very upload): a message set before
  an operation starts is not shown after that start. At every moment of every run from
  the first render the message on the page is exactly the message of the most recent
  attempt that failed since the most recent start of an operation, and there is none
  when no attempt has failed since then: messages do not stack.
\<close>

theorem C9_error_message_is_of_most_recent_failure:
  "errorMessage (fetchFiles_begin s) = None \<and>
   errorMessage (handleDownload_begin file s) = None \<and>
   errorMessage (handleDelete_begin fileId s) = None \<and>
   errorMessage (handleUpload_begin (s\<lparr>selectedFile := Some f\<rparr>)) = None \<and>
   errorMessage (handleUpload_begin (s\<lparr>selectedFile := None\<rparr>)) = Some msg_select_file \<and>
   errorMessage (run (as @ [ListBegin]) initial_page) = None \<and>
   errorMessage (run (as @ [DownloadBegin file]) initial_page) = None \<and>
   errorMessage (run (as @ [DeleteBegin fileId]) initial_page) = None \<and>
   errorMessage (run (as @ [SelectFile (Some f), UploadBegin]) initial_page) = None \<and>
   errorMessage (run (as @ [SelectFile None, UploadBegin]) initial_page) = Some msg_select_file \<and>
   fst (run_tracked as) = run as initial_page \<and>
   errorMessage (run as initial_page) = snd (run_tracked as)"
proof -
  have "errorMessage (fst (initial_page, None :: string option)) = snd (initial_page, None)"
    by (simp add: initial_page_def)
  then have "errorMessage (fst (run_tracked as)) = snd (run_tracked as)"
    unfolding run_tracked_def by (rule fold_track_keeps_message)
  moreover have "fst (run_tracked as) = run as initial_page"
    by (simp add: run_tracked_def run_def fst_fold_track)
  moreover have "errorMessage (run (as @ [SelectFile (Some f), UploadBegin]) initial_page) = None"
    by (simp add: run_def errorMessage_begins setSelectedFile_def)
  moreover have "errorMessage (run (as @ [SelectFile None, UploadBegin]) initial_page) =
      Some msg_select_file"
    by (simp add: run_def errorMessage_begins setSelectedFile_def)
  ultimately show ?thesis
    by (simp add: errorMessage_begins run_def)
qed

text \<open>
  A run in which a delete fails and a list starts afterwards: the message of the delete
  is tracked until the list starts, and not after.
\<close>

lemma tracked_message_is_reset_by_a_start:
  "snd (run_tracked [DeleteBegin ''f1'',
      DeleteSettle ''f1'' (Returns \<lparr>ok = False, json = Throws NonError, blob = Throws NonError\<rparr>)]) =
     Some msg_delete_failed \<and>
   snd (run_tracked [DeleteBegin ''f1'',
      DeleteSettle ''f1'' (Returns \<lparr>ok = False, json = Throws NonError, blob = Throws NonError\<rparr>),
      ListBegin,
      ListSettle (Returns \<lparr>ok = True, json = Returns (JsonArray []), blob = Throws NonError\<rparr>)]) =
     None"
  by (simp add: run_tracked_def track_def thrown_message_def handleDelete_try_def
      fetchFiles_try_def handleDelete_begin_def handleDelete_settle_def fetchFiles_begin_def
      fetchFiles_settle_def catch_error_def initial_page_def setters)

end
